theory Spec2Isabelle
  imports Complex_Main "HOL-Library.Multiset"
begin

section \<open>The profile store of \<^verbatim>\<open>src/lib/userManager.ts\<close>\<close>

text \<open>
  The class \<^verbatim>\<open>UserManager\<close> holds one profile (\<^verbatim>\<open>currentUser\<close>, possibly null) and
  mirrors it into the browser's local storage. Its methods mutate \<^verbatim>\<open>this\<close>; here every
  method takes the store and returns the updated store.

  Numbers. A TypeScript \<^verbatim>\<open>number\<close> is an IEEE double. The counters, scores, play times,
  experience and level are integer valued whenever the arguments are integers, and
  doubles are exact on integers below \<open>2^53\<close>; they are modelled by \<^typ>\<open>int\<close>, and
  \<^verbatim>\<open>Math.floor(x / k)\<close> on an integer \<^verbatim>\<open>x\<close> by \<^term>\<open>(div)\<close> (which rounds towards minus
  infinity, as \<^verbatim>\<open>Math.floor\<close> does). The only field that leaves the integers is
  \<^verbatim>\<open>averageScore\<close>, a quotient: it is carried as a \<^typ>\<open>rat\<close>, that is, in exact
  arithmetic, without the rounding of the double. Beyond \<open>2^53\<close> a double sum is rounded
  and an \<^typ>\<open>int\<close> sum is not: a statement that gives the exact value of a sum carries the
  range in which the two agree as a hypothesis (\<open>safe_integer\<close>, \<open>exact_run\<close> below).

  Time. \<^verbatim>\<open>new Date()\<close> and \<^verbatim>\<open>Date.now()\<close> read the clock; the value read is an argument
  \<open>now\<close> (milliseconds since the epoch) of the method that reads it, and the reads made
  during one call of a public method are taken to give the same instant.

  Storage. \<^verbatim>\<open>saveUser\<close> and \<^verbatim>\<open>logout\<close> are modelled; \<^verbatim>\<open>loadUser\<close>, which parses the stored JSON
  text once when the singleton is constructed, is not: the statements below hold for
  whatever store the calls start from.
\<close>

subsection \<open>Data\<close>

type_synonym date = nat

record Achievement =
  ach_id :: string
  ach_name :: string
  description :: string
  icon :: string
  unlocked :: bool
  unlockedAt :: "date option"

record GameStats =
  gamesPlayed :: int
  gs_totalPlayTime :: int
  highScore :: int
  averageScore :: rat
  achievements :: "Achievement list"
  lastPlayed :: "date option"

text \<open>\<^verbatim>\<open>keyof UserProfile['gameStats']\<close>: the five keys of the \<^verbatim>\<open>gameStats\<close> object.\<close>

datatype game = Snake | Tetris | Pong | Memory | Platformer

record GameStatsMap =
  snake :: GameStats
  tetris :: GameStats
  pong :: GameStats
  memory :: GameStats
  platformer :: GameStats

record UserProfile =
  uid :: string
  username :: string
  avatar :: string
  level :: int
  experience :: int
  totalGamesPlayed :: int
  totalPlayTime :: int
  joinDate :: date
  gameStats :: GameStatsMap
  globalAchievements :: "Achievement list"

text \<open>
  The store: the private field \<^verbatim>\<open>currentUser\<close>, and the part of the browser it talks to.
  \<open>localStorage\<close> is the item stored under \<^verbatim>\<open>STORAGE_KEY\<close> (the JSON text is abstracted to
  the profile it encodes), \<open>window_defined\<close> is \<^verbatim>\<open>typeof window !== 'undefined'\<close>, and
  \<open>setItem_throws\<close> says whether \<^verbatim>\<open>localStorage.setItem\<close> raises (a full or disabled
  storage); the source catches that exception and logs it.
\<close>

record UserManager =
  currentUser :: "UserProfile option"
  localStorage :: "UserProfile option"
  window_defined :: bool
  setItem_throws :: bool

subsection \<open>Reading and writing \<^verbatim>\<open>gameStats[game]\<close>\<close>

fun stats_of :: "game \<Rightarrow> GameStatsMap \<Rightarrow> GameStats" where
  "stats_of Snake s = snake s"
| "stats_of Tetris s = tetris s"
| "stats_of Pong s = pong s"
| "stats_of Memory s = memory s"
| "stats_of Platformer s = platformer s"

fun set_stats :: "game \<Rightarrow> GameStats \<Rightarrow> GameStatsMap \<Rightarrow> GameStatsMap" where
  "set_stats Snake v s = s\<lparr>snake := v\<rparr>"
| "set_stats Tetris v s = s\<lparr>tetris := v\<rparr>"
| "set_stats Pong v s = s\<lparr>pong := v\<rparr>"
| "set_stats Memory v s = s\<lparr>memory := v\<rparr>"
| "set_stats Platformer v s = s\<lparr>platformer := v\<rparr>"

text \<open>\<^verbatim>\<open>Object.values(gameStats)\<close>: the values in the order the keys were created.\<close>

definition object_values :: "GameStatsMap \<Rightarrow> GameStats list" where
  "object_values s = [snake s, tetris s, pong s, memory s, platformer s]"

definition key_of :: "game \<Rightarrow> string" where
  "key_of g = (case g of Snake \<Rightarrow> ''snake'' | Tetris \<Rightarrow> ''tetris'' | Pong \<Rightarrow> ''pong''
                | Memory \<Rightarrow> ''memory'' | Platformer \<Rightarrow> ''platformer'')"

subsection \<open>Defaults and \<^verbatim>\<open>createUser\<close>\<close>

definition getDefaultGameStats :: GameStats where
  "getDefaultGameStats =
     \<lparr>gamesPlayed = 0, gs_totalPlayTime = 0, highScore = 0, averageScore = 0,
      achievements = [], lastPlayed = None\<rparr>"

text \<open>The icons are emoji; a \<^typ>\<open>string\<close> holds their UTF-8 bytes.\<close>

definition locked :: "string \<Rightarrow> string \<Rightarrow> string \<Rightarrow> string \<Rightarrow> Achievement" where
  "locked i n d ic =
     \<lparr>ach_id = i, ach_name = n, description = d, icon = ic, unlocked = False,
      unlockedAt = None\<rparr>"

definition getDefaultAchievements :: "Achievement list" where
  "getDefaultAchievements =
     [locked ''first_game'' ''First Steps'' ''Play your first game''
        [CHR 0xF0, CHR 0x9F, CHR 0x8E, CHR 0xAE],
      locked ''speed_demon'' ''Speed Demon'' ''Score 1000+ points in Snake''
        [CHR 0xE2, CHR 0x9A, CHR 0xA1],
      locked ''tetris_master'' ''Tetris Master'' ''Clear 10 lines in Tetris''
        [CHR 0xF0, CHR 0x9F, CHR 0xA7, CHR 0xB1],
      locked ''memory_champion'' ''Memory Champion''
        ''Complete Memory game in under 30 seconds''
        [CHR 0xF0, CHR 0x9F, CHR 0xA7, CHR 0xA0],
      locked ''platformer_pro'' ''Platformer Pro'' ''Reach level 5 in Platformer''
        [CHR 0xF0, CHR 0x9F, CHR 0x8F, CHR 0x83],
      locked ''pong_champion'' ''Pong Champion'' ''Score 10 points in Pong''
        [CHR 0xF0, CHR 0x9F, CHR 0x8F, CHR 0x93],
      locked ''dedicated_player'' ''Dedicated Player'' ''Play for 1 hour total''
        [CHR 0xE2, CHR 0x8F, CHR 0xB0],
      locked ''game_master'' ''Game Master'' ''Play all 5 games''
        [CHR 0xF0, CHR 0x9F, CHR 0x91, CHR 0x91]]"

text \<open>The decimal digits of a number, as the template literal prints \<^verbatim>\<open>Date.now()\<close>.\<close>

fun decimal :: "nat \<Rightarrow> string" where
  "decimal n =
     (if n < 10 then [''0123456789'' ! n]
      else decimal (n div 10) @ [''0123456789'' ! (n mod 10)])"

declare decimal.simps [simp del]

text \<open>
  \<^verbatim>\<open>saveUser\<close>: writes the profile to the storage when there is a window and a profile;
  an exception of \<^verbatim>\<open>setItem\<close> is caught, and nothing is written then.
\<close>

definition saveUser :: "UserManager \<Rightarrow> UserManager" where
  "saveUser m =
     (if window_defined m \<and> currentUser m \<noteq> None
      then (if setItem_throws m then m else m\<lparr>localStorage := currentUser m\<rparr>)
      else m)"

definition newUser :: "string \<Rightarrow> date \<Rightarrow> UserProfile" where
  "newUser name now =
     \<lparr>uid = ''user_'' @ decimal now, username = name,
      avatar = [CHR 0xF0, CHR 0x9F, CHR 0x8E, CHR 0xAE],
      level = 1, experience = 0, totalGamesPlayed = 0, totalPlayTime = 0,
      joinDate = now,
      gameStats = \<lparr>snake = getDefaultGameStats, tetris = getDefaultGameStats,
                   pong = getDefaultGameStats, memory = getDefaultGameStats,
                   platformer = getDefaultGameStats\<rparr>,
      globalAchievements = getDefaultAchievements\<rparr>"

text \<open>\<^verbatim>\<open>createUser\<close> returns the new profile and leaves it in the store.\<close>

definition createUser :: "string \<Rightarrow> date \<Rightarrow> UserManager \<Rightarrow> UserProfile \<times> UserManager" where
  "createUser name now m =
     (newUser name now, saveUser (m\<lparr>currentUser := Some (newUser name now)\<rparr>))"

definition getCurrentUser :: "UserManager \<Rightarrow> UserProfile option" where
  "getCurrentUser m = currentUser m"

definition logout :: "UserManager \<Rightarrow> UserManager" where
  "logout m =
     (if window_defined m then m\<lparr>currentUser := None, localStorage := None\<rparr>
      else m\<lparr>currentUser := None\<rparr>)"

subsection \<open>Achievements\<close>

text \<open>
  \<^verbatim>\<open>globalAchievements.find(a => a.id === achievementId)\<close> yields the first achievement
  with that id; the object found is updated in place when it is still locked.
\<close>

fun unlock_in :: "string \<Rightarrow> date \<Rightarrow> Achievement list \<Rightarrow> Achievement list" where
  "unlock_in i now [] = []"
| "unlock_in i now (a # as) =
     (if ach_id a = i
      then (if \<not> unlocked a then a\<lparr>unlocked := True, unlockedAt := Some now\<rparr> else a) # as
      else a # unlock_in i now as)"

definition unlockAchievement :: "string \<Rightarrow> date \<Rightarrow> UserManager \<Rightarrow> UserManager" where
  "unlockAchievement achievementId now m =
     (case currentUser m of
        None \<Rightarrow> m
      | Some u \<Rightarrow>
          m\<lparr>currentUser :=
              Some (u\<lparr>globalAchievements :=
                        unlock_in achievementId now (globalAchievements u)\<rparr>)\<rparr>)"

text \<open>
  \<^verbatim>\<open>checkAchievements\<close>, check by check in the order of the source. The profile is read
  again from the store at each check, as \<^verbatim>\<open>this.currentUser\<close> is.
\<close>

definition check_first_game :: "date \<Rightarrow> UserManager \<Rightarrow> UserManager" where
  "check_first_game now m =
     (case currentUser m of
        None \<Rightarrow> m
      | Some u \<Rightarrow> if totalGamesPlayed u = 1 then unlockAchievement ''first_game'' now m else m)"

definition check_game :: "game \<Rightarrow> int \<Rightarrow> int \<Rightarrow> date \<Rightarrow> UserManager \<Rightarrow> UserManager" where
  "check_game g score playTime now m =
     (case g of
        Snake \<Rightarrow> if score \<ge> 1000 then unlockAchievement ''speed_demon'' now m else m
      | Tetris \<Rightarrow> if score \<ge> 1000 then unlockAchievement ''tetris_master'' now m else m
      | Pong \<Rightarrow> if score \<ge> 10 then unlockAchievement ''pong_champion'' now m else m
      | Memory \<Rightarrow> if playTime \<le> 30 then unlockAchievement ''memory_champion'' now m else m
      | Platformer \<Rightarrow> if score \<ge> 5000 then unlockAchievement ''platformer_pro'' now m else m)"

definition check_dedicated :: "date \<Rightarrow> UserManager \<Rightarrow> UserManager" where
  "check_dedicated now m =
     (case currentUser m of
        None \<Rightarrow> m
      | Some u \<Rightarrow>
          if totalPlayTime u \<ge> 3600 then unlockAchievement ''dedicated_player'' now m else m)"

definition played_count :: "UserProfile \<Rightarrow> nat" where
  "played_count u = length (filter (\<lambda>stats. gamesPlayed stats > 0) (object_values (gameStats u)))"

definition check_game_master :: "date \<Rightarrow> UserManager \<Rightarrow> UserManager" where
  "check_game_master now m =
     (case currentUser m of
        None \<Rightarrow> m
      | Some u \<Rightarrow> if played_count u = 5 then unlockAchievement ''game_master'' now m else m)"

definition checkAchievements :: "game \<Rightarrow> int \<Rightarrow> int \<Rightarrow> date \<Rightarrow> UserManager \<Rightarrow> UserManager" where
  "checkAchievements g score playTime now m =
     (case currentUser m of
        None \<Rightarrow> m
      | Some _ \<Rightarrow>
          check_game_master now
            (check_dedicated now
              (check_game g score playTime now
                (check_first_game now m))))"

subsection \<open>\<^verbatim>\<open>updateGameStats\<close> (the spec's \<open>recordSession\<close>)\<close>

definition played :: "int \<Rightarrow> int \<Rightarrow> date \<Rightarrow> GameStats \<Rightarrow> GameStats" where
  "played score playTime now gs0 =
     (let gs1 = gs0\<lparr>gamesPlayed := gamesPlayed gs0 + 1\<rparr>;
          gs2 = gs1\<lparr>gs_totalPlayTime := gs_totalPlayTime gs1 + playTime\<rparr>;
          gs3 = gs2\<lparr>lastPlayed := Some now\<rparr>;
          gs4 = (if score > highScore gs3 then gs3\<lparr>highScore := score\<rparr> else gs3)
      in gs4\<lparr>averageScore :=
               (averageScore gs4 * of_int (gamesPlayed gs4 - 1) + of_int score)
                 / of_int (gamesPlayed gs4)\<rparr>)"

definition progressed :: "game \<Rightarrow> int \<Rightarrow> int \<Rightarrow> date \<Rightarrow> UserProfile \<Rightarrow> UserProfile" where
  "progressed g score playTime now u =
     (let u1 = u\<lparr>gameStats := set_stats g (played score playTime now (stats_of g (gameStats u)))
                                 (gameStats u)\<rparr>;
          u2 = u1\<lparr>totalGamesPlayed := totalGamesPlayed u1 + 1\<rparr>;
          u3 = u2\<lparr>totalPlayTime := totalPlayTime u2 + playTime\<rparr>;
          u4 = u3\<lparr>experience := experience u3 + (score div 10 + playTime div 60)\<rparr>;
          newLevel = experience u4 div 100 + 1
      in if newLevel > level u4 then u4\<lparr>level := newLevel\<rparr> else u4)"

definition updateGameStats :: "game \<Rightarrow> int \<Rightarrow> int \<Rightarrow> date \<Rightarrow> UserManager \<Rightarrow> UserManager" where
  "updateGameStats g score playTime now m =
     (case currentUser m of
        None \<Rightarrow> m
      | Some u \<Rightarrow>
          saveUser
            (checkAchievements g score playTime now
              (m\<lparr>currentUser := Some (progressed g score playTime now u)\<rparr>)))"

text \<open>A sequence of calls of \<^verbatim>\<open>updateGameStats\<close>, one \<open>(game, score, playTime, now)\<close> each.\<close>

type_synonym session = "game \<times> int \<times> int \<times> date"

fun sessions :: "session list \<Rightarrow> UserManager \<Rightarrow> UserManager" where
  "sessions [] m = m"
| "sessions ((g, score, playTime, now) # cs) m =
     sessions cs (updateGameStats g score playTime now m)"

text \<open>The lookups the claims speak of.\<close>

definition is_unlocked :: "string \<Rightarrow> UserProfile \<Rightarrow> bool" where
  "is_unlocked i u = (case find (\<lambda>a. ach_id a = i) (globalAchievements u) of
                        None \<Rightarrow> False | Some a \<Rightarrow> unlocked a)"

definition reading :: "(UserProfile \<Rightarrow> 'a) \<Rightarrow> UserManager \<Rightarrow> 'a option" where
  "reading f m = map_option f (getCurrentUser m)"

text \<open>
  The store of a browser in which nothing is stored yet: the constructor's \<^verbatim>\<open>loadUser\<close>
  finds no item and leaves \<^verbatim>\<open>currentUser\<close> null.
\<close>

definition fresh_manager :: UserManager where
  "fresh_manager =
     \<lparr>currentUser = None, localStorage = None, window_defined = True, setItem_throws = False\<rparr>"

subsection \<open>\<^verbatim>\<open>getLeaderboard\<close>\<close>

record LeaderboardEntry =
  lb_username :: string
  lb_score :: int
  lb_game :: "string option"

definition mockData :: "LeaderboardEntry list" where
  "mockData =
     [\<lparr>lb_username = ''ProGamer123'', lb_score = 1250, lb_game = Some ''snake''\<rparr>,
      \<lparr>lb_username = ''TetrisKing'', lb_score = 2500, lb_game = Some ''tetris''\<rparr>,
      \<lparr>lb_username = ''MemoryMaster'', lb_score = 15, lb_game = Some ''memory''\<rparr>,
      \<lparr>lb_username = ''PongChamp'', lb_score = 15, lb_game = Some ''pong''\<rparr>,
      \<lparr>lb_username = ''JumpHero'', lb_score = 8500, lb_game = Some ''platformer''\<rparr>]"

text \<open>
  \<^verbatim>\<open>Array.prototype.sort(compare)\<close> is a stable sort: for a comparator that is a total
  preorder its result is the one stable sorted arrangement, whatever algorithm the
  engine runs. It is written here as an insertion sort from the right, which puts an
  element in front of the first element \<open>y\<close> with \<open>compare x y \<le> 0\<close>.
\<close>

fun insert_by :: "('a \<Rightarrow> 'a \<Rightarrow> int) \<Rightarrow> 'a \<Rightarrow> 'a list \<Rightarrow> 'a list" where
  "insert_by compare x [] = [x]"
| "insert_by compare x (y # ys) =
     (if compare x y \<le> 0 then x # y # ys else y # insert_by compare x ys)"

definition array_sort :: "('a \<Rightarrow> 'a \<Rightarrow> int) \<Rightarrow> 'a list \<Rightarrow> 'a list" where
  "array_sort compare xs = foldr (insert_by compare) xs []"

text \<open>The entry pushed for the profile, and \<^verbatim>\<open>mockData\<close> after the conditional push.\<close>

definition user_entry :: "game \<Rightarrow> UserProfile \<Rightarrow> LeaderboardEntry" where
  "user_entry k u =
     \<lparr>lb_username = username u, lb_score = highScore (stats_of k (gameStats u)),
      lb_game = Some (key_of k)\<rparr>"

definition pushed :: "game option \<Rightarrow> UserManager \<Rightarrow> LeaderboardEntry list" where
  "pushed game m =
     (case currentUser m of
        None \<Rightarrow> mockData
      | Some u \<Rightarrow>
          (case game of
             None \<Rightarrow> mockData
           | Some k \<Rightarrow>
               let userScore = highScore (stats_of k (gameStats u))
               in if userScore > 0 then mockData @ [user_entry k u] else mockData))"

definition getLeaderboard :: "game option \<Rightarrow> UserManager \<Rightarrow> LeaderboardEntry list" where
  "getLeaderboard game m =
     take 10 (array_sort (\<lambda>a b. lb_score b - lb_score a) (pushed game m))"

subsection \<open>One call seen on the profile\<close>

text \<open>
  The ids that \<^verbatim>\<open>checkAchievements\<close> passes to \<^verbatim>\<open>unlockAchievement\<close>, in order, and the
  effect of one whole call on the profile it finds; both are derived from the
  definitions above (\<open>checkAchievements_Some\<close>, \<open>updateGameStats_Some\<close>).
\<close>

definition triggers :: "game \<Rightarrow> int \<Rightarrow> int \<Rightarrow> UserProfile \<Rightarrow> string list" where
  "triggers g score playTime u =
     (if totalGamesPlayed u = 1 then [''first_game''] else [])
     @ (case g of
          Snake \<Rightarrow> if score \<ge> 1000 then [''speed_demon''] else []
        | Tetris \<Rightarrow> if score \<ge> 1000 then [''tetris_master''] else []
        | Pong \<Rightarrow> if score \<ge> 10 then [''pong_champion''] else []
        | Memory \<Rightarrow> if playTime \<le> 30 then [''memory_champion''] else []
        | Platformer \<Rightarrow> if score \<ge> 5000 then [''platformer_pro''] else [])
     @ (if totalPlayTime u \<ge> 3600 then [''dedicated_player''] else [])
     @ (if played_count u = 5 then [''game_master''] else [])"

definition unlock_all :: "string list \<Rightarrow> date \<Rightarrow> Achievement list \<Rightarrow> Achievement list" where
  "unlock_all ids now as = fold (\<lambda>i. unlock_in i now) ids as"

definition checked :: "game \<Rightarrow> int \<Rightarrow> int \<Rightarrow> date \<Rightarrow> UserProfile \<Rightarrow> UserProfile" where
  "checked g score playTime now u =
     u\<lparr>globalAchievements :=
         unlock_all (triggers g score playTime u) now (globalAchievements u)\<rparr>"

definition session_profile :: "session \<Rightarrow> UserProfile \<Rightarrow> UserProfile" where
  "session_profile c u =
     (case c of (g, score, playTime, now) \<Rightarrow>
        checked g score playTime now (progressed g score playTime now u))"

text \<open>The scores passed for one game, and the experience one call adds.\<close>

definition scores_on :: "game \<Rightarrow> session list \<Rightarrow> int list" where
  "scores_on g cs = map (\<lambda>(k, score, playTime, now). score) (filter (\<lambda>c. fst c = g) cs)"

definition gain :: "session \<Rightarrow> int" where
  "gain c = (case c of (g, score, playTime, now) \<Rightarrow> score div 10 + playTime div 60)"



definition unlock_time :: "string \<Rightarrow> UserProfile \<Rightarrow> date option" where
  "unlock_time i u = (case find (\<lambda>a. ach_id a = i) (globalAchievements u) of
                        None \<Rightarrow> None | Some a \<Rightarrow> unlockedAt a)"

text \<open>
  \<^verbatim>\<open>Number.isSafeInteger\<close>: the integers of magnitude at most \<open>2^53 - 1\<close>, on which double
  arithmetic is exact. \<open>exact_run e cs\<close> says that the calls \<open>cs\<close>, made at experience \<open>e\<close>,
  pass safe integers and keep the experience a safe integer throughout, so that every
  \<^verbatim>\<open>experience += ...\<close> of the source is computed without rounding.
\<close>

definition safe_integer :: "int \<Rightarrow> bool" where
  "safe_integer n = (- (2 ^ 53 - 1) \<le> n \<and> n \<le> 2 ^ 53 - 1)"

fun exact_run :: "int \<Rightarrow> session list \<Rightarrow> bool" where
  "exact_run e [] = safe_integer e"
| "exact_run e ((g, score, playTime, now) # cs) =
     (safe_integer e \<and> safe_integer score \<and> safe_integer playTime
      \<and> exact_run (e + (score div 10 + playTime div 60)) cs)"


section \<open>Lemmas about one call\<close>


lemma played_count_achievements [simp]:
  "played_count (u\<lparr>globalAchievements := as\<rparr>) = played_count u"
  by (simp add: played_count_def)

lemma checkAchievements_Some:
  "currentUser m = Some u \<Longrightarrow>
   checkAchievements g score playTime now m =
     m\<lparr>currentUser := Some (checked g score playTime now u)\<rparr>"
  by (cases g)
     (simp_all add: checkAchievements_def check_first_game_def check_game_def
        check_dedicated_def check_game_master_def unlockAchievement_def checked_def
        triggers_def unlock_all_def)

lemma updateGameStats_Some:
  "currentUser m = Some u \<Longrightarrow>
   updateGameStats g score playTime now m =
     saveUser (m\<lparr>currentUser := Some (session_profile (g, score, playTime, now) u)\<rparr>)"
  by (simp add: updateGameStats_def checkAchievements_Some session_profile_def)

lemma currentUser_saveUser [simp]: "currentUser (saveUser m) = currentUser m"
  by (simp add: saveUser_def)

lemma currentUser_updateGameStats:
  "currentUser (updateGameStats g score playTime now m) =
     map_option (session_profile (g, score, playTime, now)) (currentUser m)"
  by (cases "currentUser m") (simp_all add: updateGameStats_Some, simp add: updateGameStats_def)

lemma currentUser_sessions:
  "currentUser (sessions cs m) = map_option (fold session_profile cs) (currentUser m)"
proof (induction cs arbitrary: m)
  case Nil
  show ?case by (simp add: option.map_ident)
next
  case (Cons c cs)
  obtain g score playTime now where c: "c = (g, score, playTime, now)"
    by (cases c) auto
  show ?case
    by (simp add: c Cons.IH currentUser_updateGameStats option.map_comp comp_def)
qed

lemma currentUser_createUser [simp]:
  "currentUser (snd (createUser name now m)) = Some (newUser name now)"
  by (simp add: createUser_def)

subsection \<open>Statistics, experience and level after one call and after many\<close>

lemma stats_of_set_stats:
  "stats_of g (set_stats k v s) = (if g = k then v else stats_of g s)"
  by (cases g; cases k) simp_all

lemma gameStats_checked [simp]: "gameStats (checked g score playTime now u) = gameStats u"
  by (simp add: checked_def)

lemma experience_checked [simp]: "experience (checked g score playTime now u) = experience u"
  by (simp add: checked_def)

lemma level_checked [simp]: "level (checked g score playTime now u) = level u"
  by (simp add: checked_def)

lemma gameStats_progressed:
  "gameStats (progressed g score playTime now u) =
     set_stats g (played score playTime now (stats_of g (gameStats u))) (gameStats u)"
  by (simp add: progressed_def Let_def)

lemma experience_progressed:
  "experience (progressed g score playTime now u) = experience u + (score div 10 + playTime div 60)"
  by (simp add: progressed_def Let_def)


lemma highScore_played: "highScore (played score playTime now gs) = max (highScore gs) score"
  by (simp add: played_def Let_def max_def)

lemma gamesPlayed_played: "gamesPlayed (played score playTime now gs) = gamesPlayed gs + 1"
  by (simp add: played_def Let_def)

lemma stats_session_profile:
  "stats_of g (gameStats (session_profile (k, score, playTime, now) u)) =
     (if g = k then played score playTime now (stats_of g (gameStats u))
      else stats_of g (gameStats u))"
  by (simp add: session_profile_def gameStats_progressed stats_of_set_stats)

lemma newUser_stats [simp]: "stats_of g (gameStats (newUser name now)) = getDefaultGameStats"
  by (cases g) (simp_all add: newUser_def)

lemma highScore_fold:
  "highScore (stats_of g (gameStats (fold session_profile cs u))) =
     fold max (scores_on g cs) (highScore (stats_of g (gameStats u)))"
proof (induction cs arbitrary: u)
  case Nil
  show ?case by (simp add: scores_on_def)
next
  case (Cons c cs)
  obtain k score playTime now where c: "c = (k, score, playTime, now)"
    by (cases c) auto
  have step: "highScore (stats_of g (gameStats (session_profile c u))) =
      (if k = g then max score (highScore (stats_of g (gameStats u)))
       else highScore (stats_of g (gameStats u)))"
    by (simp add: c stats_session_profile highScore_played max.commute)
  have "scores_on g (c # cs) = (if k = g then score # scores_on g cs else scores_on g cs)"
    by (simp add: scores_on_def c)
  then show ?case
    using Cons.IH [of "session_profile c u"] step by simp
qed

lemma fold_max_Max: "fold max xs (a::int) = Max (insert a (set xs))"
  by (metis Max.set_eq_fold list.simps(15))


lemma experience_session_profile:
  "experience (session_profile c u) = experience u + gain c"
  by (cases c) (simp add: session_profile_def experience_progressed gain_def)


lemma experience_fold:
  "experience (fold session_profile cs u) = experience u + sum_list (map gain cs)"
  by (induction cs arbitrary: u) (simp_all add: experience_session_profile)

lemma sum_list_gain_nonneg: "\<forall>c\<in>set cs. 0 \<le> gain c \<Longrightarrow> 0 \<le> sum_list (map gain cs)"
  by (induction cs) simp_all

lemma gain_nonneg: "0 \<le> score \<Longrightarrow> 0 \<le> playTime \<Longrightarrow> 0 \<le> gain (g, score, playTime, now)"
  by (simp add: gain_def pos_imp_zdiv_nonneg_iff)

lemma sessions_None: "currentUser m = None \<Longrightarrow> sessions cs m = m"
  by (induction cs) (auto simp add: updateGameStats_def)

lemma nonneg_fold:
  "0 \<le> highScore (stats_of g (gameStats u)) \<and> 0 \<le> gamesPlayed (stats_of g (gameStats u)) \<Longrightarrow>
   0 \<le> highScore (stats_of g (gameStats (fold session_profile cs u)))
   \<and> 0 \<le> gamesPlayed (stats_of g (gameStats (fold session_profile cs u)))"
proof (induction cs arbitrary: u)
  case Nil
  then show ?case by simp
next
  case (Cons c cs)
  obtain k score playTime now where c: "c = (k, score, playTime, now)"
    by (cases c) auto
  have "0 \<le> highScore (stats_of g (gameStats (session_profile c u)))
      \<and> 0 \<le> gamesPlayed (stats_of g (gameStats (session_profile c u)))"
    using Cons.prems
    by (auto simp add: c stats_session_profile highScore_played gamesPlayed_played)
  then show ?case
    using Cons.IH [of "session_profile c u"] by simp
qed


subsection \<open>Achievements over one call and over many\<close>

lemma find_unlock_in:
  "find (\<lambda>a. ach_id a = j) (unlock_in i now as) =
     map_option (\<lambda>a. if i = j \<and> \<not> unlocked a then a\<lparr>unlocked := True, unlockedAt := Some now\<rparr> else a)
       (find (\<lambda>a. ach_id a = j) as)"
  by (induction as) (auto simp add: option.map_ident)









lemma globalAchievements_progressed [simp]:
  "globalAchievements (progressed g score playTime now u) = globalAchievements u"
  by (simp add: progressed_def Let_def)

lemma globalAchievements_session_profile:
  "globalAchievements (session_profile (g, score, playTime, now) u) =
     unlock_all (triggers g score playTime (progressed g score playTime now u)) now
       (globalAchievements u)"
  by (simp add: session_profile_def checked_def)


lemma all_game: "(\<forall>g. P g) \<longleftrightarrow> P Snake \<and> P Tetris \<and> P Pong \<and> P Memory \<and> P Platformer"
  by (metis game.exhaust)

lemma played_count_5:
  "played_count u = 5 \<longleftrightarrow> (\<forall>g. 0 < gamesPlayed (stats_of g (gameStats u)))"
  by (auto simp add: played_count_def object_values_def all_game)

lemma played_count_le_5: "played_count u \<le> 5"
  by (simp add: played_count_def object_values_def)

lemma played_count_session_profile:
  assumes "\<forall>g. 0 \<le> gamesPlayed (stats_of g (gameStats u))"
  shows "played_count u \<le> played_count (session_profile (k, score, playTime, now) u)"
  using assms
  by (cases k)
     (auto simp add: played_count_def object_values_def session_profile_def gameStats_progressed
        gamesPlayed_played all_game)

lemma find_unlock_all:
  "find (\<lambda>a. ach_id a = j) (unlock_all ids now as) =
     map_option (\<lambda>a. if j \<in> set ids \<and> \<not> unlocked a
                      then a\<lparr>unlocked := True, unlockedAt := Some now\<rparr> else a)
       (find (\<lambda>a. ach_id a = j) as)"
proof (induction ids arbitrary: as)
  case Nil
  show ?case by (simp add: unlock_all_def option.map_ident)
next
  case (Cons i ids)
  have "unlock_all (i # ids) now as = unlock_all ids now (unlock_in i now as)"
    by (simp add: unlock_all_def)
  then show ?case
    by (cases "find (\<lambda>a. ach_id a = j) as")
       (auto simp add: Cons.IH find_unlock_in)
qed

lemma game_master_trigger:
  "''game_master'' \<in> set (triggers g score playTime u) \<longleftrightarrow> played_count u = 5"
  by (cases g) (simp_all add: triggers_def)

lemma newUser_game_master:
  "find (\<lambda>a. ach_id a = ''game_master'') (globalAchievements (newUser name t0))
     = Some (locked ''game_master'' ''Game Master'' ''Play all 5 games''
               [CHR 0xF0, CHR 0x9F, CHR 0x91, CHR 0x91])"
  by (simp add: newUser_def getDefaultAchievements_def locked_def)

lemma reachable_inv:
  "(\<forall>g. 0 \<le> gamesPlayed (stats_of g (gameStats (fold session_profile cs (newUser name t0)))))
   \<and> find (\<lambda>a. ach_id a = ''game_master'')
         (globalAchievements (fold session_profile cs (newUser name t0))) \<noteq> None
   \<and> (is_unlocked ''game_master'' (fold session_profile cs (newUser name t0))
        \<longleftrightarrow> played_count (fold session_profile cs (newUser name t0)) = 5)"
proof (induction cs rule: rev_induct)
  case Nil
  show ?case
    by (simp add: is_unlocked_def newUser_game_master locked_def played_count_5
          getDefaultGameStats_def)
next
  case (snoc c cs)
  define u where "u = fold session_profile cs (newUser name t0)"
  obtain k score playTime now where c: "c = (k, score, playTime, now)"
    by (cases c) auto
  define u' where "u' = session_profile (k, score, playTime, now) u"
  have u': "fold session_profile (cs @ [c]) (newUser name t0) = u'"
    by (simp add: u_def u'_def c)
  from snoc have nonneg: "\<forall>g. 0 \<le> gamesPlayed (stats_of g (gameStats u))"
    and found: "find (\<lambda>a. ach_id a = ''game_master'') (globalAchievements u) \<noteq> None"
    and inv: "is_unlocked ''game_master'' u \<longleftrightarrow> played_count u = 5"
    by (simp_all add: u_def)
  have 1: "\<forall>g. 0 \<le> gamesPlayed (stats_of g (gameStats u'))"
    using nonneg by (simp add: u'_def stats_session_profile gamesPlayed_played)
  have 2: "find (\<lambda>a. ach_id a = ''game_master'') (globalAchievements u') \<noteq> None"
    using found by (simp add: u'_def globalAchievements_session_profile find_unlock_all)
  have pc: "played_count u' = played_count (progressed k score playTime now u)"
    by (simp add: u'_def session_profile_def checked_def)
  have mono: "played_count u \<le> played_count u'"
    unfolding u'_def by (rule played_count_session_profile [OF nonneg])
  have 3: "is_unlocked ''game_master'' u' \<longleftrightarrow> played_count u' = 5"
  proof (cases "played_count u' = 5")
    case True
    then show ?thesis
      using found
      by (auto simp add: is_unlocked_def u'_def globalAchievements_session_profile
            find_unlock_all game_master_trigger pc [unfolded u'_def, symmetric])
  next
    case False
    with mono played_count_le_5 [of u'] have "played_count u \<noteq> 5"
      by arith
    with inv have "\<not> is_unlocked ''game_master'' u"
      by simp
    with False show ?thesis
      using found
      by (auto simp add: is_unlocked_def u'_def globalAchievements_session_profile
            find_unlock_all game_master_trigger pc [unfolded u'_def, symmetric])
  qed
  from 1 2 3 show ?case
    unfolding u' by blast
qed

lemma gamesPlayed_fold:
  "gamesPlayed (stats_of g (gameStats (fold session_profile cs u))) =
     gamesPlayed (stats_of g (gameStats u)) + int (length (filter (\<lambda>c. fst c = g) cs))"
proof (induction cs arbitrary: u)
  case Nil
  show ?case by simp
next
  case (Cons c cs)
  obtain k score playTime now where c: "c = (k, score, playTime, now)"
    by (cases c) auto
  show ?case
    by (simp add: c Cons.IH stats_session_profile gamesPlayed_played)
qed

lemma played_count_all_kinds:
  "played_count (fold session_profile cs (newUser name t0)) = 5 \<longleftrightarrow> (\<forall>k. k \<in> fst ` set cs)"
proof -
  have "0 < length (filter (\<lambda>c. fst c = k) cs) \<longleftrightarrow> k \<in> fst ` set cs" for k
    by (auto simp add: length_greater_0_conv filter_empty_conv simp del: length_0_conv)
  then show ?thesis
    by (simp add: played_count_5 gamesPlayed_fold getDefaultGameStats_def)
qed





subsection \<open>The leaderboard as a library sort\<close>

lemma insert_by_insort_key:
  "insert_by (\<lambda>a b. lb_score b - lb_score a) x ys = insort_key (\<lambda>e. - lb_score e) x ys"
  by (induction ys) simp_all

lemma array_sort_sort_key:
  "array_sort (\<lambda>a b. lb_score b - lb_score a) xs = sort_key (\<lambda>e. - lb_score e) xs"
  by (induction xs) (simp_all add: array_sort_def sort_key_def insert_by_insort_key)

lemma pushed_eq:
  "pushed game m =
     mockData @ (case currentUser m of
                   None \<Rightarrow> []
                 | Some u \<Rightarrow>
                     (case game of
                        None \<Rightarrow> []
                      | Some k \<Rightarrow>
                          if 0 < highScore (stats_of k (gameStats u)) then [user_entry k u]
                          else []))"
  by (simp add: pushed_def Let_def split: option.splits)

lemma length_pushed: "length (pushed game m) \<le> 6"
  by (simp add: pushed_eq mockData_def split: option.splits)

lemma getLeaderboard_sort_key:
  "getLeaderboard game m = sort_key (\<lambda>e. - lb_score e) (pushed game m)"
  using length_pushed [of game m] by (simp add: getLeaderboard_def array_sort_sort_key)

text \<open>
  An example: \<open>Ada\<close> has played Pong once with 15 points, the score of two of the built-in
  entries; she is ranked after both.
\<close>

lemma getLeaderboard_example:
  "map lb_username
     (getLeaderboard (Some Pong)
        (updateGameStats Pong 15 60 1 (snd (createUser ''Ada'' 0 fresh_manager))))
   = [''JumpHero'', ''TetrisKing'', ''ProGamer123'', ''MemoryMaster'', ''PongChamp'', ''Ada'']"
  by (simp add: getLeaderboard_def array_sort_def pushed_def currentUser_updateGameStats
        stats_session_profile [of Pong, simplified] highScore_played mockData_def user_entry_def
        session_profile_def checked_def progressed_def Let_def newUser_def getDefaultGameStats_def)

subsection \<open>The running mean in exact arithmetic\<close>

text \<open>
  With \<^verbatim>\<open>averageScore\<close> carried as a rational, the update
  \<open>(averageScore * (gamesPlayed - 1) + score) / gamesPlayed\<close> keeps
  \<open>averageScore * gamesPlayed\<close> equal to the sum of the scores passed, so on a profile made
  by \<^verbatim>\<open>createUser\<close> the average is the exact mean of the scores passed for the game. The
  source computes in doubles, where each update rounds; these lemmas say nothing
  about the size of that error.
\<close>

lemma averageScore_played:
  "0 \<le> gamesPlayed gs \<Longrightarrow>
   averageScore (played score playTime now gs) * of_int (gamesPlayed (played score playTime now gs))
     = averageScore gs * of_int (gamesPlayed gs) + of_int score"
  by (simp add: played_def Let_def)

lemma averageScore_fold:
  "0 \<le> gamesPlayed (stats_of g (gameStats u)) \<Longrightarrow>
   averageScore (stats_of g (gameStats (fold session_profile cs u)))
       * of_int (gamesPlayed (stats_of g (gameStats (fold session_profile cs u))))
     = averageScore (stats_of g (gameStats u)) * of_int (gamesPlayed (stats_of g (gameStats u)))
       + of_int (sum_list (scores_on g cs))"
proof (induction cs arbitrary: u)
  case Nil
  show ?case by (simp add: scores_on_def)
next
  case (Cons c cs)
  obtain k score playTime now where c: "c = (k, score, playTime, now)"
    by (cases c) auto
  let ?u = "session_profile c u"
  have nonneg: "0 \<le> gamesPlayed (stats_of g (gameStats ?u))"
    using Cons.prems by (auto simp add: c stats_session_profile gamesPlayed_played)
  have step: "averageScore (stats_of g (gameStats ?u)) * of_int (gamesPlayed (stats_of g (gameStats ?u)))
      = averageScore (stats_of g (gameStats u)) * of_int (gamesPlayed (stats_of g (gameStats u)))
        + (if k = g then of_int score else 0)"
    using Cons.prems by (simp add: c stats_session_profile averageScore_played)
  have "scores_on g (c # cs) = (if k = g then score # scores_on g cs else scores_on g cs)"
    by (simp add: scores_on_def c)
  then show ?case
    using Cons.IH [OF nonneg] step by simp
qed

lemma averageScore_exact_mean:
  "scores_on g cs \<noteq> [] \<Longrightarrow>
   reading (\<lambda>p. averageScore (stats_of g (gameStats p))) (sessions cs (snd (createUser name t0 m0)))
     = Some (of_int (sum_list (scores_on g cs)) / of_int (int (length (scores_on g cs))))"
proof -
  assume ne: "scores_on g cs \<noteq> []"
  let ?u = "fold session_profile cs (newUser name t0)"
  have n: "gamesPlayed (stats_of g (gameStats ?u)) = int (length (scores_on g cs))"
    by (simp add: gamesPlayed_fold getDefaultGameStats_def scores_on_def)
  have "averageScore (stats_of g (gameStats ?u)) * of_int (int (length (scores_on g cs)))
      = of_int (sum_list (scores_on g cs))"
    using averageScore_fold [of g "newUser name t0" cs] n
    by (simp add: getDefaultGameStats_def)
  moreover have "(of_int (int (length (scores_on g cs))) :: rat) \<noteq> 0"
    using ne by simp
  ultimately have "averageScore (stats_of g (gameStats ?u))
      = of_int (sum_list (scores_on g cs)) / of_int (int (length (scores_on g cs)))"
    by (simp add: eq_divide_eq)
  then show ?thesis
    by (simp add: reading_def getCurrentUser_def currentUser_sessions)
qed

section \<open>The claims\<close>

text \<open>
  C1. The scenario of the spec. \<^verbatim>\<open>create("Ada")\<close> returns a profile at level 1 with no
  experience, zeroed statistics for every game and every achievement locked; one call
  \<^verbatim>\<open>recordSession("snake", 1200, 45)\<close> then leaves a profile whose snake statistics have
  \<open>highScore = 1200\<close> and \<open>gamesPlayed = 1\<close>, in which \<open>first_game\<close> and \<open>speed_demon\<close> are
  unlocked (and nothing else is), with \<open>experience = 120\<close> and \<open>level = 2\<close>. This holds
  for every store the calls start from and every reading of the clock.
\<close>

theorem scenario_ada_snake:
  "(let created = fst (createUser ''Ada'' t0 m0)
    in level created = 1 \<and> experience created = 0
       \<and> object_values (gameStats created) = replicate 5 getDefaultGameStats
       \<and> filter unlocked (globalAchievements created) = [])
   \<and> (\<exists>u. getCurrentUser (updateGameStats Snake 1200 45 t1 (snd (createUser ''Ada'' t0 m0)))
             = Some u
         \<and> highScore (snake (gameStats u)) = 1200
         \<and> gamesPlayed (snake (gameStats u)) = 1
         \<and> is_unlocked ''first_game'' u
         \<and> is_unlocked ''speed_demon'' u
         \<and> map ach_id (filter unlocked (globalAchievements u)) = [''first_game'', ''speed_demon'']
         \<and> experience u = 120
         \<and> level u = 2)"
  by (simp add: createUser_def getCurrentUser_def updateGameStats_Some session_profile_def
        checked_def triggers_def unlock_all_def progressed_def played_def newUser_def
        getDefaultGameStats_def getDefaultAchievements_def locked_def is_unlocked_def
        played_count_def object_values_def Let_def numeral_eq_Suc)

text \<open>
  C2, as the code has it. A game's \<open>highScore\<close> after any sequence of calls is the
  maximum of its \<open>highScore\<close> before them and of all scores passed for that game in
  them; calls for other games leave it alone. A profile made by \<^verbatim>\<open>createUser\<close> starts at
  0, so there it is the maximum of 0 and the scores passed: the largest score passed
  once one of them is not negative, and 0 as long as all of them are.
\<close>

theorem highScore_is_max_with_start:
  "currentUser m = Some u \<Longrightarrow>
   reading (\<lambda>p. highScore (stats_of g (gameStats p))) (sessions cs m)
     = Some (Max (insert (highScore (stats_of g (gameStats u))) (set (scores_on g cs))))
   \<and> (u = newUser name t0 \<longrightarrow>
        reading (\<lambda>p. highScore (stats_of g (gameStats p))) (sessions cs m)
          = Some (Max (insert 0 (set (scores_on g cs)))))"
  by (simp add: reading_def getCurrentUser_def currentUser_sessions highScore_fold fold_max_Max
        getDefaultGameStats_def)

theorem highScore_is_max_with_start_witness:
  "currentUser (snd (createUser ''Ada'' 0 fresh_manager)) = Some (newUser ''Ada'' 0)
   \<and> reading (\<lambda>p. highScore (stats_of Snake (gameStats p)))
        (sessions [(Snake, - 5, 0, 1), (Tetris, 90, 0, 2), (Snake, 7, 0, 3), (Snake, 3, 0, 4)]
           (snd (createUser ''Ada'' 0 fresh_manager))) = Some 7"
  using highScore_is_max_with_start
    [of "snd (createUser ''Ada'' 0 fresh_manager)" "newUser ''Ada'' 0" Snake
        "[(Snake, - 5, 0, 1), (Tetris, 90, 0, 2), (Snake, 7, 0, 3), (Snake, 3, 0, 4)]" "''Ada''" 0]
  by (simp add: scores_on_def getDefaultGameStats_def)

text \<open>
  C2, as the spec words it, fails when every score passed is negative: after
  \<^verbatim>\<open>create("Ada")\<close> and \<^verbatim>\<open>recordSession("snake", -5, 0)\<close> the snake \<open>highScore\<close> is still
  0, while the maximum of the scores passed is \<open>-5\<close>.
\<close>

theorem highScore_not_max_counterexample:
  "reading (\<lambda>p. highScore (stats_of Snake (gameStats p)))
      (sessions [(Snake, - 5, 0, 1)] (snd (createUser ''Ada'' 0 fresh_manager)))
    = Some 0
   \<and> reading (\<lambda>p. highScore (stats_of Snake (gameStats p)))
      (sessions [(Snake, - 5, 0, 1)] (snd (createUser ''Ada'' 0 fresh_manager)))
    \<noteq> Some (Max (set (scores_on Snake [(Snake, - 5, 0, 1)])))"
  by (simp add: reading_def getCurrentUser_def currentUser_updateGameStats
      stats_session_profile [of Snake, simplified] highScore_played scores_on_def
      getDefaultGameStats_def)



text \<open>
  C5, as the code has it. A call against an active profile adds exactly
  \<open>floor(score / 10) + floor(playTime / 60)\<close> to \<open>experience\<close> when score, play time and the
  experience before and after the call are safe integers (of magnitude at most
  \<open>2^53 - 1\<close>, where the double sum is exact), and a sequence of such calls adds the sum of
  these amounts and lowers nothing when each amount is at least 0. Experience does not
  decrease over any sequence of calls whose scores and play times are not negative.
\<close>

theorem experience_gain_and_monotone:
  "currentUser m = Some u \<Longrightarrow>
   (exact_run (experience u) [(g, score, playTime, now)] \<longrightarrow>
      reading experience (updateGameStats g score playTime now m)
        = Some (experience u + (score div 10 + playTime div 60)))
   \<and> (exact_run (experience u) cs \<longrightarrow>
        reading experience (sessions cs m) = Some (experience u + sum_list (map gain cs)))
   \<and> (exact_run (experience u) cs \<and> (\<forall>c\<in>set cs. 0 \<le> gain c) \<longrightarrow>
        (\<exists>u'. getCurrentUser (sessions cs m) = Some u' \<and> experience u \<le> experience u'))
   \<and> ((\<forall>(k, s, t, n)\<in>set cs. 0 \<le> s \<and> 0 \<le> t) \<longrightarrow>
        (\<exists>u'. getCurrentUser (sessions cs m) = Some u' \<and> experience u \<le> experience u'))"
proof (intro impI conjI)
  assume u: "currentUser m = Some u"
  show "reading experience (updateGameStats g score playTime now m)
      = Some (experience u + (score div 10 + playTime div 60))"
    by (simp add: u reading_def getCurrentUser_def currentUser_updateGameStats
          experience_session_profile gain_def)
  show "reading experience (sessions cs m) = Some (experience u + sum_list (map gain cs))"
    by (simp add: u reading_def getCurrentUser_def currentUser_sessions experience_fold)
  show "\<exists>u'. getCurrentUser (sessions cs m) = Some u' \<and> experience u \<le> experience u'"
    if "exact_run (experience u) cs \<and> (\<forall>c\<in>set cs. 0 \<le> gain c)"
  proof -
    from that have "\<forall>c\<in>set cs. 0 \<le> gain c"
      by simp
    from sum_list_gain_nonneg [OF this] show ?thesis
      by (simp add: u getCurrentUser_def currentUser_sessions experience_fold)
  qed
  show "\<exists>u'. getCurrentUser (sessions cs m) = Some u' \<and> experience u \<le> experience u'"
    if args: "\<forall>(k, s, t, n)\<in>set cs. 0 \<le> s \<and> 0 \<le> t"
  proof -
    have "\<forall>c\<in>set cs. 0 \<le> gain c"
      using args by (auto simp add: gain_nonneg)
    from sum_list_gain_nonneg [OF this] show ?thesis
      by (simp add: u getCurrentUser_def currentUser_sessions experience_fold)
  qed
qed

theorem experience_gain_and_monotone_witness:
  "currentUser (snd (createUser ''Ada'' 0 fresh_manager)) = Some (newUser ''Ada'' 0)
   \<and> exact_run (experience (newUser ''Ada'' 0)) [(Snake, 1200, 45, 1), (Memory, 7, 130, 2)]
   \<and> 0 \<le> gain (Snake, 1200, 45, 1) \<and> 0 \<le> gain (Memory, 7, 130, 2)
   \<and> reading experience
        (sessions [(Snake, 1200, 45, 1), (Memory, 7, 130, 2)]
           (snd (createUser ''Ada'' 0 fresh_manager))) = Some 122"
proof -
  let ?m = "snd (createUser ''Ada'' 0 fresh_manager)"
  let ?cs = "[(Snake, 1200, 45, 1), (Memory, 7, 130, 2)] :: session list"
  have h: "currentUser ?m = Some (newUser ''Ada'' 0)"
    by simp
  have r: "exact_run (experience (newUser ''Ada'' 0)) ?cs"
    by (simp add: safe_integer_def newUser_def)
  have g: "0 \<le> gain (Snake, 1200, 45, 1) \<and> 0 \<le> gain (Memory, 7, 130, 2)"
    and sum: "experience (newUser ''Ada'' 0) + sum_list (map gain ?cs) = 122"
    by (simp_all add: gain_def newUser_def)
  from experience_gain_and_monotone [OF h, of Snake 1200 45 1 ?cs] r
  have "reading experience (sessions ?cs ?m)
      = Some (experience (newUser ''Ada'' 0) + sum_list (map gain ?cs))"
    by blast
  with sum have "reading experience (sessions ?cs ?m) = Some 122"
    by (simp only:)
  with h r g show ?thesis
    by blast
qed

text \<open>
  C5, as the spec words it, fails for a negative score: after \<^verbatim>\<open>create("Ada")\<close> the
  experience is 0, and \<^verbatim>\<open>recordSession("snake", -10, 0)\<close> lowers it to \<open>-1\<close>.
\<close>

theorem experience_decreases_counterexample:
  "reading experience (snd (createUser ''Ada'' 0 fresh_manager)) = Some 0
   \<and> reading experience
        (updateGameStats Snake (- 10) 0 1 (snd (createUser ''Ada'' 0 fresh_manager))) = Some (- 1)"
  by (simp add: reading_def getCurrentUser_def currentUser_updateGameStats
        experience_session_profile gain_def newUser_def)

text \<open>
  C8. With no active profile a call returns at once: the store it leaves is the store
  it found, in memory and in the storage, for all arguments, and \<^verbatim>\<open>getCurrentUser\<close> is
  still null afterwards. The same holds for any sequence of calls. No branch of
  the call raises.
\<close>

theorem recordSession_without_profile:
  "currentUser m = None \<Longrightarrow>
   updateGameStats g score playTime now m = m
   \<and> getCurrentUser (updateGameStats g score playTime now m) = None
   \<and> localStorage (updateGameStats g score playTime now m) = localStorage m
   \<and> sessions cs m = m"
  by (simp add: updateGameStats_def getCurrentUser_def sessions_None)

theorem recordSession_without_profile_witness:
  "currentUser fresh_manager = None
   \<and> updateGameStats Snake 1200 45 7 fresh_manager = fresh_manager
   \<and> getCurrentUser (updateGameStats Snake 1200 45 7 fresh_manager) = None"
proof -
  have h: "currentUser fresh_manager = None"
    by (simp add: fresh_manager_def)
  show ?thesis
    using h recordSession_without_profile [OF h, of Snake 1200 45 7 "[]"]
    by (simp add: getCurrentUser_def)
qed

text \<open>
  C10. In every profile made by \<^verbatim>\<open>createUser\<close> and changed by any sequence of calls, with
  any integer scores, every game's \<open>highScore\<close> and \<open>gamesPlayed\<close> are at least 0:
  \<open>highScore\<close> starts at 0, and a further call replaces it only by a score that is
  strictly larger, and only for the game played.
\<close>

theorem highScore_gamesPlayed_nonneg:
  "\<exists>u. getCurrentUser (sessions cs (snd (createUser name t0 m0))) = Some u
      \<and> 0 \<le> highScore (stats_of g (gameStats u))
      \<and> 0 \<le> gamesPlayed (stats_of g (gameStats u))
      \<and> highScore (stats_of g (gameStats (fst (createUser name t0 m0)))) = 0
      \<and> reading (\<lambda>p. highScore (stats_of g (gameStats p)))
            (updateGameStats k score playTime now (sessions cs (snd (createUser name t0 m0))))
          = Some (if k = g \<and> score > highScore (stats_of g (gameStats u)) then score
                  else highScore (stats_of g (gameStats u)))"
  using nonneg_fold [of g "newUser name t0" cs]
  by (simp add: getCurrentUser_def reading_def currentUser_sessions currentUser_updateGameStats
        stats_session_profile highScore_played getDefaultGameStats_def createUser_def max_def)



text \<open>
  C7. In every state of the store and for every argument, \<^verbatim>\<open>getLeaderboard\<close> returns a
  list in descending order of score, of at most 10 entries, in which entries of equal
  score stand in the order they had in \<^verbatim>\<open>mockData\<close> after the push. Its entries are the
  five of \<^verbatim>\<open>mockData\<close> and, exactly when a profile is active, a game is given and that
  game's \<open>highScore\<close> is above 0, one more entry with the profile's name and that
  \<open>highScore\<close>.
\<close>

theorem leaderboard_sorted_capped_stable:
  "sorted_wrt (\<lambda>a b. lb_score a \<ge> lb_score b) (getLeaderboard game m)
   \<and> length (getLeaderboard game m) \<le> 10
   \<and> (\<forall>s. filter (\<lambda>e. lb_score e = s) (getLeaderboard game m)
          = filter (\<lambda>e. lb_score e = s)
              (mockData @ (case currentUser m of
                   None \<Rightarrow> []
                 | Some u \<Rightarrow>
                     (case game of
                        None \<Rightarrow> []
                      | Some k \<Rightarrow>
                          if 0 < highScore (stats_of k (gameStats u)) then [user_entry k u]
                          else []))))
   \<and> mset (getLeaderboard game m)
       = mset mockData
         + (case currentUser m of
              None \<Rightarrow> {#}
            | Some u \<Rightarrow>
                (case game of
                   None \<Rightarrow> {#}
                 | Some k \<Rightarrow>
                     if 0 < highScore (stats_of k (gameStats u))
                     then {#\<lparr>lb_username = username u,
                             lb_score = highScore (stats_of k (gameStats u)),
                             lb_game = Some (key_of k)\<rparr>#}
                     else {#}))
   \<and> length mockData = 5"
proof (intro conjI allI)
  have "sorted (map (\<lambda>e. - lb_score e) (getLeaderboard game m))"
    by (simp add: getLeaderboard_sort_key)
  then show "sorted_wrt (\<lambda>a b. lb_score a \<ge> lb_score b) (getLeaderboard game m)"
    by (simp add: sorted_map)
  show "length (getLeaderboard game m) \<le> 10"
    using length_pushed [of game m] by (simp add: getLeaderboard_sort_key)
  show "filter (\<lambda>e. lb_score e = s) (getLeaderboard game m)
      = filter (\<lambda>e. lb_score e = s)
          (mockData @ (case currentUser m of
               None \<Rightarrow> []
             | Some u \<Rightarrow>
                 (case game of
                    None \<Rightarrow> []
                  | Some k \<Rightarrow>
                      if 0 < highScore (stats_of k (gameStats u)) then [user_entry k u]
                      else [])))" for s
  proof -
    have "filter (\<lambda>e. - lb_score e = - s) (sort_key (\<lambda>e. - lb_score e) (pushed game m))
        = filter (\<lambda>e. - lb_score e = - s) (pushed game m)"
      by (rule sort_key_stable)
    then show ?thesis
      by (simp add: getLeaderboard_sort_key pushed_eq [symmetric])
  qed
  show "mset (getLeaderboard game m)
       = mset mockData
         + (case currentUser m of
              None \<Rightarrow> {#}
            | Some u \<Rightarrow>
                (case game of
                   None \<Rightarrow> {#}
                 | Some k \<Rightarrow>
                     if 0 < highScore (stats_of k (gameStats u))
                     then {#\<lparr>lb_username = username u,
                             lb_score = highScore (stats_of k (gameStats u)),
                             lb_game = Some (key_of k)\<rparr>#}
                     else {#}))"
    by (simp add: getLeaderboard_sort_key pushed_eq user_entry_def split: option.splits)
  show "length mockData = 5"
    by (simp add: mockData_def)
qed

text \<open>
  C9. On a profile made by \<^verbatim>\<open>createUser\<close>, after any sequence of calls \<open>game_master\<close> is
  unlocked exactly when five game kinds have \<open>gamesPlayed > 0\<close>, which is exactly when
  each of the five kinds occurs among the calls made. The count never goes down, so
  the call that brings it to 5 (the first play of the fifth kind) is the one call that
  unlocks \<open>game_master\<close>, and it stamps \<open>unlockedAt\<close> with its own time.
\<close>

theorem game_master_on_fifth_kind:
  "\<exists>u u'. getCurrentUser (sessions cs (snd (createUser name t0 m0))) = Some u
      \<and> getCurrentUser
           (updateGameStats g score playTime now (sessions cs (snd (createUser name t0 m0))))
         = Some u'
      \<and> (played_count u = 5 \<longleftrightarrow> (\<forall>k. k \<in> fst ` set cs))
      \<and> (played_count u' = 5 \<longleftrightarrow> (\<forall>k. k \<in> insert g (fst ` set cs)))
      \<and> (is_unlocked ''game_master'' u \<longleftrightarrow> played_count u = 5)
      \<and> (is_unlocked ''game_master'' u' \<longleftrightarrow> played_count u' = 5)
      \<and> played_count u \<le> played_count u'
      \<and> (\<not> is_unlocked ''game_master'' u \<and> is_unlocked ''game_master'' u'
           \<longrightarrow> unlock_time ''game_master'' u' = Some now)"
proof -
  define u where "u = fold session_profile cs (newUser name t0)"
  define u' where "u' = session_profile (g, score, playTime, now) u"
  have u': "u' = fold session_profile (cs @ [(g, score, playTime, now)]) (newUser name t0)"
    by (simp add: u_def u'_def)
  have cu: "getCurrentUser (sessions cs (snd (createUser name t0 m0))) = Some u"
    by (simp add: getCurrentUser_def currentUser_sessions u_def)
  have cu': "getCurrentUser
      (updateGameStats g score playTime now (sessions cs (snd (createUser name t0 m0)))) = Some u'"
    by (simp add: getCurrentUser_def currentUser_updateGameStats currentUser_sessions u_def u'_def)
  have k: "played_count u = 5 \<longleftrightarrow> (\<forall>k. k \<in> fst ` set cs)"
    unfolding u_def by (rule played_count_all_kinds)
  have k': "played_count u' = 5 \<longleftrightarrow> (\<forall>k. k \<in> insert g (fst ` set cs))"
    using played_count_all_kinds [of "cs @ [(g, score, playTime, now)]" name t0]
    by (simp add: u'_def u_def)
  have inv: "is_unlocked ''game_master'' u \<longleftrightarrow> played_count u = 5"
    and nonneg: "\<forall>g. 0 \<le> gamesPlayed (stats_of g (gameStats u))"
    and found: "find (\<lambda>a. ach_id a = ''game_master'') (globalAchievements u) \<noteq> None"
    using reachable_inv [of cs name t0] by (simp_all add: u_def)
  have inv': "is_unlocked ''game_master'' u' \<longleftrightarrow> played_count u' = 5"
    using reachable_inv [of "cs @ [(g, score, playTime, now)]" name t0] by (simp add: u')
  have mono: "played_count u \<le> played_count u'"
    unfolding u'_def by (rule played_count_session_profile [OF nonneg])
  have time: "unlock_time ''game_master'' u' = Some now"
    if "\<not> is_unlocked ''game_master'' u \<and> is_unlocked ''game_master'' u'"
    using that found
    by (auto simp add: is_unlocked_def unlock_time_def u'_def globalAchievements_session_profile
          find_unlock_all split: if_splits)
  from cu cu' k k' inv inv' mono time show ?thesis
    by blast
qed

theorem game_master_on_fifth_kind_witness:
  "\<exists>u u'. getCurrentUser
             (sessions [(Snake, 1, 1, 1), (Tetris, 1, 1, 2), (Pong, 1, 1, 3), (Memory, 1, 1, 4)]
                (snd (createUser ''Ada'' 0 fresh_manager))) = Some u
      \<and> getCurrentUser
           (updateGameStats Platformer 1 1 5
              (sessions [(Snake, 1, 1, 1), (Tetris, 1, 1, 2), (Pong, 1, 1, 3), (Memory, 1, 1, 4)]
                 (snd (createUser ''Ada'' 0 fresh_manager)))) = Some u'
      \<and> \<not> is_unlocked ''game_master'' u
      \<and> is_unlocked ''game_master'' u'
      \<and> unlock_time ''game_master'' u' = Some 5"
proof -
  have 1: "\<not> (\<forall>k. k \<in> fst ` set [(Snake, 1::int, 1::int, 1::nat), (Tetris, 1, 1, 2),
      (Pong, 1, 1, 3), (Memory, 1, 1, 4)])"
    by (simp add: all_game)
  have 2: "\<forall>k. k \<in> insert Platformer (fst ` set [(Snake, 1::int, 1::int, 1::nat), (Tetris, 1, 1, 2),
      (Pong, 1, 1, 3), (Memory, 1, 1, 4)])"
    by (simp add: all_game)
  show ?thesis
    using 1 2 game_master_on_fifth_kind
      [of "[(Snake, 1, 1, 1), (Tetris, 1, 1, 2), (Pong, 1, 1, 3), (Memory, 1, 1, 4)]"
          "''Ada''" 0 fresh_manager Platformer 1 1 5]
    by metis
qed

end
